theory Spec2Isabelle
  imports Complex_Main
begin

section \<open>JavaScript numbers\<close>

text \<open>
  Every quantity of the simulation is a JavaScript number. A finite number is modelled
  by a real, so that arithmetic on finite values is exact; the three special values of
  IEEE arithmetic that the code can produce by dividing by zero are kept as values of
  their own, since they are stored in fields and flow through later computations.
  Rounding, overflow to infinity and the sign of zero are not part of this model: where
  the source rounds the result of an operation to the nearest double, the model keeps
  the exact result. The statements about the program therefore say which expression a
  method evaluates, or state an order between values that rounding to the nearest
  double keeps; a lemma that rests on the exact result says so.
\<close>

datatype jsnum = Num real | PosInf | NegInf | NaN

fun inf_of_sign :: "real \<Rightarrow> jsnum" where
  "inf_of_sign s = (if 0 < s then PosInf else if s < 0 then NegInf else NaN)"

fun sign_of :: "jsnum \<Rightarrow> real" where
  "sign_of (Num a) = sgn a"
| "sign_of PosInf = 1"
| "sign_of NegInf = - 1"
| "sign_of NaN = 0"

text \<open>\<open>x * y\<close>: infinity times zero is NaN, otherwise the signs multiply.\<close>

fun jsmul :: "jsnum \<Rightarrow> jsnum \<Rightarrow> jsnum" where
  "jsmul NaN y = NaN"
| "jsmul x NaN = NaN"
| "jsmul (Num a) (Num b) = Num (a * b)"
| "jsmul x y = inf_of_sign (sign_of x * sign_of y)"

text \<open>\<open>x + y\<close>: the sum of the two infinities of opposite sign is NaN.\<close>

fun jsadd :: "jsnum \<Rightarrow> jsnum \<Rightarrow> jsnum" where
  "jsadd NaN y = NaN"
| "jsadd x NaN = NaN"
| "jsadd (Num a) (Num b) = Num (a + b)"
| "jsadd PosInf NegInf = NaN"
| "jsadd NegInf PosInf = NaN"
| "jsadd PosInf y = PosInf"
| "jsadd NegInf y = NegInf"
| "jsadd (Num a) y = y"

fun jsneg :: "jsnum \<Rightarrow> jsnum" where
  "jsneg (Num a) = Num (- a)"
| "jsneg PosInf = NegInf"
| "jsneg NegInf = PosInf"
| "jsneg NaN = NaN"

definition jssub :: "jsnum \<Rightarrow> jsnum \<Rightarrow> jsnum" where
  "jssub x y = jsadd x (jsneg y)"

text \<open>
  \<open>x / y\<close>: a finite nonzero value divided by zero is an infinity, \<open>0 / 0\<close> is NaN,
  a finite value divided by an infinity is zero, and the quotient of two infinities is NaN.
\<close>

fun jsdiv :: "jsnum \<Rightarrow> jsnum \<Rightarrow> jsnum" where
  "jsdiv NaN y = NaN"
| "jsdiv x NaN = NaN"
| "jsdiv (Num a) (Num b) = (if b = 0 then inf_of_sign a else Num (a / b))"
| "jsdiv (Num a) y = Num 0"
| "jsdiv PosInf (Num b) = (if b < 0 then NegInf else PosInf)"
| "jsdiv NegInf (Num b) = (if b < 0 then PosInf else NegInf)"
| "jsdiv x y = NaN"

text \<open>The comparisons \<open><\<close>, \<open>>\<close> and \<open><=\<close>: every comparison with NaN is false.\<close>

fun jslt :: "jsnum \<Rightarrow> jsnum \<Rightarrow> bool" where
  "jslt NaN y = False"
| "jslt x NaN = False"
| "jslt (Num a) (Num b) = (a < b)"
| "jslt x NegInf = False"
| "jslt PosInf y = False"
| "jslt NegInf y = True"
| "jslt (Num a) PosInf = True"

definition jsgt :: "jsnum \<Rightarrow> jsnum \<Rightarrow> bool" where
  "jsgt x y = jslt y x"

fun jsle :: "jsnum \<Rightarrow> jsnum \<Rightarrow> bool" where
  "jsle NaN y = False"
| "jsle x NaN = False"
| "jsle x y = (\<not> jslt y x)"

text \<open>\<open>Math.min(x, y)\<close>: NaN as soon as one argument is NaN.\<close>

fun jsmin :: "jsnum \<Rightarrow> jsnum \<Rightarrow> jsnum" where
  "jsmin NaN y = NaN"
| "jsmin x NaN = NaN"
| "jsmin x y = (if jslt y x then y else x)"

section \<open>Errors\<close>

text \<open>
  The exception classes of the program, each with the message it is thrown with.
  A method that can throw returns the exception, if any, together with the state as it is
  at that moment: what was mutated before the throw stays mutated.
\<close>

datatype error =
    ReferenceError string
  | TypeError string
  | RangeError string
  | IllegalStateError string
  | NoFuelTankConnectedError string
  | NoOxidizerTankConnectedError string
  | OutOfFuelError string
  | OutOfOxidizerError string

section \<open>Compounds\<close>

text \<open>
  Class \<open>Compound\<close> and its two subclasses \<open>Fuel\<close> and \<open>Oxidizer\<close>, which add no
  field: the class of the object is the tag \<open>cls\<close>, read by \<open>instanceof\<close>.
\<close>

datatype compound_class = PlainCompound | Fuel | Oxidizer

record compound =
  cls :: compound_class
  density :: jsnum
  meltingPoint :: jsnum
  boilingPoint :: jsnum

definition new_Fuel :: "jsnum \<Rightarrow> jsnum \<Rightarrow> jsnum \<Rightarrow> compound" where
  "new_Fuel d m b = \<lparr>cls = Fuel, density = d, meltingPoint = m, boilingPoint = b\<rparr>"

definition new_Oxidizer :: "jsnum \<Rightarrow> jsnum \<Rightarrow> jsnum \<Rightarrow> compound" where
  "new_Oxidizer d m b = \<lparr>cls = Oxidizer, density = d, meltingPoint = m, boilingPoint = b\<rparr>"

text \<open>The catalogues \<open>Fuels\<close> and \<open>Oxidizers\<close>.\<close>

definition KEROSENE :: compound where
  "KEROSENE = new_Fuel (Num 0.000749) (Num (- 9.6)) (Num 216.3)"

definition RP_1 :: compound where
  "RP_1 = new_Fuel (Num 0.000820) NaN (Num 274.0)"

definition HYDRAZINE :: compound where
  "HYDRAZINE = new_Fuel (Num 0.001004) (Num 1.4) (Num 113.5)"

definition METHYL_HYDRAZINE :: compound where
  "METHYL_HYDRAZINE = new_Fuel (Num 0.000866) (Num (- 52.4)) (Num 87.5)"

definition DIMETHYL_HYDRAZINE :: compound where
  "DIMETHYL_HYDRAZINE = new_Fuel (Num 0.000791) (Num (- 58.0)) (Num 63.9)"

definition AEROZINE_50 :: compound where
  "AEROZINE_50 = new_Fuel (Num 0.000899) (Num (- 7.3)) (Num 70.0)"

definition LIQUID_HYDROGEN :: compound where
  "LIQUID_HYDROGEN = new_Fuel (Num 0.000071) (Num (- 259.3)) (Num (- 252.9))"

definition LIQUID_OXIGEN :: compound where
  "LIQUID_OXIGEN = new_Oxidizer (Num 0.00114) (Num (- 218.8)) (Num (- 183.0))"

definition NITROGEN_TETROXIDE :: compound where
  "NITROGEN_TETROXIDE = new_Oxidizer (Num 0.00145) (Num (- 9.3)) (Num 21.15)"

section \<open>Tanks\<close>

text \<open>
  The private fields of class \<open>Tank\<close>. The checks of the methods against \<open>null\<close> and
  against values that are not numbers are discharged by the types of the model.
\<close>

record tank =
  compound :: compound
  volumeCapacity :: jsnum
  massCapacity :: jsnum
  level :: jsnum

text \<open>The constructor: the tank starts empty, its mass capacity is computed once.\<close>

definition new_Tank :: "compound \<Rightarrow> jsnum \<Rightarrow> tank" where
  "new_Tank c capacity =
     \<lparr>compound = c, volumeCapacity = capacity,
      massCapacity = jsmul capacity (density c), level = Num 0\<rparr>"

definition get_volumeLevel :: "tank \<Rightarrow> jsnum" where
  "get_volumeLevel t = jsdiv (level t) (density (compound t))"

definition get_massLevel :: "tank \<Rightarrow> jsnum" where
  "get_massLevel t = level t"

definition get_level :: "tank \<Rightarrow> jsnum" where
  "get_level t = jsdiv (level t) (massCapacity t)"

definition get_empty :: "tank \<Rightarrow> bool" where
  "get_empty t = jsle (level t) (Num 0)"

text \<open>
  The four mutators. Each returns the amount it reports to the caller and the tank
  after the call.
\<close>

definition fillVolume :: "jsnum \<Rightarrow> tank \<Rightarrow> jsnum \<times> tank" where
  "fillVolume volume t =
     (let mass = jsmin (jssub (massCapacity t) (level t)) (jsmul volume (density (compound t)))
      in (jsdiv mass (density (compound t)), t\<lparr>level := jsadd (level t) mass\<rparr>))"

definition fillMass :: "jsnum \<Rightarrow> tank \<Rightarrow> jsnum \<times> tank" where
  "fillMass mass0 t =
     (let mass = jsmin (jssub (massCapacity t) (level t)) mass0
      in (mass, t\<lparr>level := jsadd (level t) mass\<rparr>))"

definition drainVolume :: "jsnum \<Rightarrow> tank \<Rightarrow> jsnum \<times> tank" where
  "drainVolume volume t =
     (let mass = jsmin (level t) (jsmul volume (density (compound t)))
      in (jsdiv mass (density (compound t)), t\<lparr>level := jssub (level t) mass\<rparr>))"

definition drainMass :: "jsnum \<Rightarrow> tank \<Rightarrow> jsnum \<times> tank" where
  "drainMass mass0 t =
     (let mass = jsmin (level t) mass0
      in (mass, t\<lparr>level := jssub (level t) mass\<rparr>))"

text \<open>A sequence of calls on one tank, each call keeping the tank the previous one left.\<close>

datatype tank_call = FillVolume jsnum | FillMass jsnum | DrainVolume jsnum | DrainMass jsnum

fun call_tank :: "tank_call \<Rightarrow> tank \<Rightarrow> jsnum \<times> tank" where
  "call_tank (FillVolume v) t = fillVolume v t"
| "call_tank (FillMass m) t = fillMass m t"
| "call_tank (DrainVolume v) t = drainVolume v t"
| "call_tank (DrainMass m) t = drainMass m t"

fun call_tank_all :: "tank_call list \<Rightarrow> tank \<Rightarrow> tank" where
  "call_tank_all [] t = t"
| "call_tank_all (c # cs) t = call_tank_all cs (snd (call_tank c t))"

fun requested :: "tank_call \<Rightarrow> jsnum" where
  "requested (FillVolume v) = v"
| "requested (FillMass m) = m"
| "requested (DrainVolume v) = v"
| "requested (DrainMass m) = m"

text \<open>The invariant of the level, as the comparisons \<open>0 <= level && level <= massCapacity\<close>.\<close>

definition level_in_range :: "tank \<Rightarrow> bool" where
  "level_in_range t = (jsle (Num 0) (level t) \<and> jsle (level t) (massCapacity t))"

section \<open>Engines\<close>

text \<open>
  Tanks are objects shared by reference: several engines may hold the same tank, and a
  drain by one of them is seen by the others. The tanks therefore live in a heap,
  and an engine holds references into it (\<open>null\<close> is \<open>None\<close>).
\<close>

type_synonym ref = nat

type_synonym heap = "ref \<Rightarrow> tank"

text \<open>The private fields of class \<open>Engine\<close>, apart from the two constants below.\<close>

record engine =
  thrust :: jsnum
  fuelFlow :: jsnum
  oxidizerFlow :: jsnum
  propellantFlow :: jsnum
  effectiveExhaustVelocity :: jsnum
  fuelTank :: "ref option"
  oxidizerTank :: "ref option"
  throttle :: jsnum
  preburnerIgnition :: bool
  chamberIgnition :: bool
  preburnerCombustion :: jsnum
  chamberCombustion :: jsnum

definition PREBURNER_TAP_OFF :: jsnum where
  "PREBURNER_TAP_OFF = Num 0.05"

definition CHAMBER_TAP_OFF :: jsnum where
  "CHAMBER_TAP_OFF = jssub (Num 1) PREBURNER_TAP_OFF"

definition new_Engine :: "jsnum \<Rightarrow> jsnum \<Rightarrow> jsnum \<Rightarrow> engine" where
  "new_Engine thrust0 fuelFlow0 oxidizerFlow0 =
     \<lparr>thrust = thrust0, fuelFlow = fuelFlow0, oxidizerFlow = oxidizerFlow0,
      propellantFlow = jsadd fuelFlow0 oxidizerFlow0,
      effectiveExhaustVelocity = jsdiv thrust0 (jsadd fuelFlow0 oxidizerFlow0),
      fuelTank = None, oxidizerTank = None, throttle = Num 0,
      preburnerIgnition = False, chamberIgnition = False,
      preburnerCombustion = Num 0, chamberCombustion = Num 0\<rparr>"

subsection \<open>Setters\<close>

text \<open>
  A setter returns the exception it throws, if any, and the engine after the call.
  The tank setters read the class of the tank's compound through the heap.
\<close>

definition set_fuelTank :: "ref option \<Rightarrow> heap \<Rightarrow> engine \<Rightarrow> error option \<times> engine" where
  "set_fuelTank tnk h e =
     (case tnk of
        None \<Rightarrow> (None, e\<lparr>fuelTank := None\<rparr>)
      | Some r \<Rightarrow>
          if cls (compound (h r)) \<noteq> Fuel
          then (Some (RangeError ''The tank must contain a fuel''), e)
          else (None, e\<lparr>fuelTank := Some r\<rparr>))"

definition set_oxidizerTank :: "ref option \<Rightarrow> heap \<Rightarrow> engine \<Rightarrow> error option \<times> engine" where
  "set_oxidizerTank tnk h e =
     (case tnk of
        None \<Rightarrow> (None, e\<lparr>oxidizerTank := None\<rparr>)
      | Some r \<Rightarrow>
          if cls (compound (h r)) \<noteq> Oxidizer
          then (Some (RangeError ''The tank must contain an oxidizer''), e)
          else (None, e\<lparr>oxidizerTank := Some r\<rparr>))"

definition set_throttle :: "jsnum \<Rightarrow> engine \<Rightarrow> error option \<times> engine" where
  "set_throttle lvl e =
     (if jslt lvl (Num 0) \<or> jsgt lvl (Num 1)
      then (Some (RangeError ''Thrust level must be a value between 0 and 1''), e)
      else (None, e\<lparr>throttle := lvl\<rparr>))"

definition set_preburnerIgnition :: "bool \<Rightarrow> engine \<Rightarrow> engine" where
  "set_preburnerIgnition active e = e\<lparr>preburnerIgnition := active\<rparr>"

definition set_chamberIgnition :: "bool \<Rightarrow> engine \<Rightarrow> engine" where
  "set_chamberIgnition active e = e\<lparr>chamberIgnition := active\<rparr>"

subsection \<open>Read accessors\<close>

text \<open>Each getter is the expression of the source, with its parenthesisation.\<close>

definition get_thrustLevel :: "engine \<Rightarrow> jsnum" where
  "get_thrustLevel e =
     jsadd (jsmul (preburnerCombustion e) PREBURNER_TAP_OFF)
           (jsmul (chamberCombustion e) CHAMBER_TAP_OFF)"

definition get_thrust :: "engine \<Rightarrow> jsnum" where
  "get_thrust e = jsmul (thrust e) (get_thrustLevel e)"

definition get_fuelFlow :: "engine \<Rightarrow> jsnum" where
  "get_fuelFlow e =
     jsadd (jsmul (jsmul (fuelFlow e) PREBURNER_TAP_OFF) (preburnerCombustion e))
           (jsmul (jsmul (fuelFlow e) CHAMBER_TAP_OFF) (chamberCombustion e))"

definition get_oxidizerFlow :: "engine \<Rightarrow> jsnum" where
  "get_oxidizerFlow e =
     jsadd (jsmul (jsmul (oxidizerFlow e) PREBURNER_TAP_OFF) (preburnerCombustion e))
           (jsmul (jsmul (oxidizerFlow e) CHAMBER_TAP_OFF) (chamberCombustion e))"

definition get_propellantFlow :: "engine \<Rightarrow> jsnum" where
  "get_propellantFlow e =
     jsadd (jsmul (jsmul (propellantFlow e) PREBURNER_TAP_OFF) (preburnerCombustion e))
           (jsmul (jsmul (propellantFlow e) CHAMBER_TAP_OFF) (chamberCombustion e))"

definition get_effectiveExhaustVelocity :: "engine \<Rightarrow> jsnum" where
  "get_effectiveExhaustVelocity e =
     jsadd (jsmul (jsmul (effectiveExhaustVelocity e) PREBURNER_TAP_OFF) (preburnerCombustion e))
           (jsmul (jsmul (effectiveExhaustVelocity e) CHAMBER_TAP_OFF) (chamberCombustion e))"

definition specificImpulse :: "jsnum \<Rightarrow> engine \<Rightarrow> jsnum" where
  "specificImpulse g e = jsmul (jsdiv (get_thrust e) (get_propellantFlow e)) g"

subsection \<open>The tick\<close>

text \<open>\<open>drainMass\<close> called on the tank a reference points to: the heap holds the tank after the call.\<close>

definition drainMass_at :: "ref \<Rightarrow> jsnum \<Rightarrow> heap \<Rightarrow> jsnum \<times> heap" where
  "drainMass_at r mass h = (case drainMass mass (h r) of (drained, t) \<Rightarrow> (drained, h(r := t)))"

text \<open>
  The local constants of a stage, kept for the statements about them: the two
  coefficients \<open>a\<close> and \<open>b\<close>, the arguments of the two \<open>drainMass\<close> calls, what
  the calls returned, the two supply ratios, and the heap after the two calls.
\<close>

record stage =
  coeff_a :: jsnum
  coeff_b :: jsnum
  fuelRequested :: jsnum
  oxidizerRequested :: jsnum
  fuelDrained :: jsnum
  oxidizerDrained :: jsnum
  fuelSupply :: jsnum
  oxidizerSupply :: jsnum
  heap_after :: heap

text \<open>The body of \<open>#preburner\<close> below its two tank checks, up to its last assignment.\<close>

definition preburner_body :: "jsnum \<Rightarrow> engine \<Rightarrow> ref \<Rightarrow> ref \<Rightarrow> heap \<Rightarrow> stage" where
  "preburner_body elapsed e f ox h =
     (let a = jsmul PREBURNER_TAP_OFF elapsed;
          b = jsmul a (throttle e);
          (fuelDrained0, h1) = drainMass_at f (jsmul (fuelFlow e) b) h;
          (oxidizerDrained0, h2) = drainMass_at ox (jsmul (oxidizerFlow e) b) h1;
          fuelSupply0 = jsdiv fuelDrained0 (jsmul (fuelFlow e) a);
          oxidizerSupply0 = jsdiv oxidizerDrained0 (jsmul (oxidizerFlow e) a)
      in \<lparr>coeff_a = a, coeff_b = b,
          fuelRequested = jsmul (fuelFlow e) b, oxidizerRequested = jsmul (oxidizerFlow e) b,
          fuelDrained = fuelDrained0, oxidizerDrained = oxidizerDrained0,
          fuelSupply = fuelSupply0, oxidizerSupply = oxidizerSupply0, heap_after = h2\<rparr>)"

definition preburner :: "jsnum \<Rightarrow> engine \<times> heap \<Rightarrow> error option \<times> engine \<times> heap" where
  "preburner elapsed eh =
     (case eh of (e, h) \<Rightarrow>
        (case fuelTank e of
           None \<Rightarrow> (Some (NoFuelTankConnectedError ''Fuel tank is not connected''), e, h)
         | Some f \<Rightarrow>
            (case oxidizerTank e of
               None \<Rightarrow>
                 (Some (NoOxidizerTankConnectedError ''Oxidizer tank is not connected''), e, h)
             | Some ox \<Rightarrow>
                 (let st = preburner_body elapsed e f ox h
                  in (None,
                      e\<lparr>preburnerCombustion :=
                          (if preburnerIgnition e \<or> jsgt (preburnerCombustion e) (Num 0)
                           then jsmin (fuelSupply st) (oxidizerSupply st) else Num 0)\<rparr>,
                      heap_after st)))))"

text \<open>The body of \<open>#pump\<close> below its two tank checks, up to its \<open>return\<close>.\<close>

definition pump_body :: "jsnum \<Rightarrow> engine \<Rightarrow> ref \<Rightarrow> ref \<Rightarrow> heap \<Rightarrow> stage" where
  "pump_body elapsed e f ox h =
     (let a = jsmul CHAMBER_TAP_OFF elapsed;
          b = jsmul a (preburnerCombustion e);
          (fuelDrained0, h1) = drainMass_at f (jsmul (fuelFlow e) b) h;
          (oxidizerDrained0, h2) = drainMass_at ox (jsmul (oxidizerFlow e) b) h1;
          fuelSupply0 = jsdiv fuelDrained0 (jsmul (fuelFlow e) a);
          oxidizerSupply0 = jsdiv oxidizerDrained0 (jsmul (oxidizerFlow e) a)
      in \<lparr>coeff_a = a, coeff_b = b,
          fuelRequested = jsmul (fuelFlow e) b, oxidizerRequested = jsmul (oxidizerFlow e) b,
          fuelDrained = fuelDrained0, oxidizerDrained = oxidizerDrained0,
          fuelSupply = fuelSupply0, oxidizerSupply = oxidizerSupply0, heap_after = h2\<rparr>)"

text \<open>\<open>#pump\<close> returns the mixture level, or throws; it assigns no field of the engine.\<close>

definition pump :: "jsnum \<Rightarrow> engine \<times> heap \<Rightarrow> (error + jsnum) \<times> heap" where
  "pump elapsed eh =
     (case eh of (e, h) \<Rightarrow>
        (case fuelTank e of
           None \<Rightarrow> (Inl (NoFuelTankConnectedError ''Fuel tank is not connected''), h)
         | Some f \<Rightarrow>
            (case oxidizerTank e of
               None \<Rightarrow>
                 (Inl (NoOxidizerTankConnectedError ''Oxidizer tank is not connected''), h)
             | Some ox \<Rightarrow>
                 (let st = pump_body elapsed e f ox h
                  in (Inr (jsmin (fuelSupply st) (oxidizerSupply st)), heap_after st)))))"

definition chamber :: "jsnum \<Rightarrow> engine \<Rightarrow> error option \<times> engine" where
  "chamber mixture e =
     (if jslt mixture (Num 0) \<or> jsgt mixture (Num 1)
      then (Some (RangeError ''Mixture level must be a value between 0 and 1''), e)
      else (None,
            e\<lparr>chamberCombustion :=
                (if chamberIgnition e \<or> jsgt (chamberCombustion e) (Num 0)
                 then mixture else Num 0)\<rparr>))"


text \<open>
  \<open>Engine.tick\<close>: the pre-burner, then the pump, whose result goes to the chamber.
  An exception ends the tick where it is thrown. The checks of \<open>Temporal.tick\<close> on the
  argument hold by its type.
\<close>

definition tick :: "jsnum \<Rightarrow> engine \<times> heap \<Rightarrow> error option \<times> engine \<times> heap" where
  "tick elapsed eh =
     (case preburner elapsed eh of
        (Some err, e1, h1) \<Rightarrow> (Some err, e1, h1)
      | (None, e1, h1) \<Rightarrow>
          (case pump elapsed (e1, h1) of
             (Inl err, h2) \<Rightarrow> (Some err, e1, h2)
           | (Inr mixture, h2) \<Rightarrow>
               (case chamber mixture e1 of (r, e2) \<Rightarrow> (r, e2, h2))))"

section \<open>The clock\<close>

text \<open>
  A temporal object is modelled by its \<open>tick\<close> method, acting on the state \<open>'w\<close> of
  the simulated world: it returns the exception it throws, if any, and the world as the
  call leaves it.
\<close>

type_synonym 'w temporal = "jsnum \<Rightarrow> 'w \<Rightarrow> error option \<times> 'w"

text \<open>
  The private fields of class \<open>Clock\<close>. Field \<open>#id\<close> holds the identifier that
  \<open>setInterval\<close> returned, \<open>None\<close> standing for \<open>undefined\<close> and \<open>null\<close>.
\<close>

record 'w clock =
  rate :: jsnum
  interval :: jsnum
  elapsed :: jsnum
  temporals :: "'w temporal list"
  timer_id :: "nat option"

definition new_Clock :: "jsnum \<Rightarrow> 'w clock" where
  "new_Clock r =
     \<lparr>rate = r, interval = jsdiv (Num 1000) r, elapsed = jsdiv (Num 1) r,
      temporals = [], timer_id = None\<rparr>"

text \<open>The truth value of \<open>this.#id\<close> in a condition: a number is true when it is not zero.\<close>

fun truthy :: "nat option \<Rightarrow> bool" where
  "truthy None = False"
| "truthy (Some n) = (n \<noteq> 0)"

definition isRunning :: "'w clock \<Rightarrow> bool" where
  "isRunning c = (if truthy (timer_id c) then True else False)"

definition register :: "'w temporal \<Rightarrow> 'w clock \<Rightarrow> 'w clock" where
  "register t c = c\<lparr>temporals := temporals c @ [t]\<rparr>"

text \<open>
  \<open>start\<close> and \<open>stop\<close>. The identifier that \<open>setInterval\<close> returns is a parameter
  of \<open>start\<close>; the platform returns a positive one.
\<close>

definition start :: "nat \<Rightarrow> 'w clock \<Rightarrow> error option \<times> 'w clock" where
  "start handle c =
     (if truthy (timer_id c) then (Some (IllegalStateError ''Clock is already running''), c)
      else (None, c\<lparr>timer_id := Some handle\<rparr>))"

definition stop :: "'w clock \<Rightarrow> error option \<times> 'w clock" where
  "stop c =
     (if truthy (timer_id c) then (Some (IllegalStateError ''Clock is not running''), c)
      else (None, c\<lparr>timer_id := None\<rparr>))"

text \<open>
  The handler \<open>#tick\<close> of one firing: \<open>forEach\<close> over the registered temporals, each
  call in a \<open>try\<close> whose \<open>catch\<close> writes the exception to the console.
\<close>

fun forEach_tick :: "jsnum \<Rightarrow> 'w temporal list \<Rightarrow> 'w \<times> error list \<Rightarrow> 'w \<times> error list" where
  "forEach_tick dt [] (w, console) = (w, console)"
| "forEach_tick dt (t # ts) (w, console) =
     (case t dt w of
        (None, w1) \<Rightarrow> forEach_tick dt ts (w1, console)
      | (Some e, w1) \<Rightarrow> forEach_tick dt ts (w1, console @ [e]))"

definition clock_tick :: "'w clock \<Rightarrow> 'w \<times> error list \<Rightarrow> 'w \<times> error list" where
  "clock_tick c wc = forEach_tick (elapsed c) (temporals c) wc"

text \<open>
  What a firing is to write to the console: the exceptions thrown by the temporals, each
  ticked on the world that the one before it left, in the order of the list.
\<close>

fun thrown :: "jsnum \<Rightarrow> 'w temporal list \<Rightarrow> 'w \<Rightarrow> error list" where
  "thrown dt [] w = []"
| "thrown dt (t # ts) w =
     (case fst (t dt w) of None \<Rightarrow> [] | Some e \<Rightarrow> [e]) @ thrown dt ts (snd (t dt w))"

text \<open>Registering a list of temporals one after the other.\<close>

fun register_all :: "'w temporal list \<Rightarrow> 'w clock \<Rightarrow> 'w clock" where
  "register_all [] c = c"
| "register_all (t # ts) c = register_all ts (register t c)"

section \<open>The simulated world\<close>

text \<open>
  The engines and the tanks of a simulation. An engine registered with the clock is the
  temporal that runs \<open>Engine.tick\<close> on that engine and on the shared tanks.
\<close>

record world =
  engines :: "ref \<Rightarrow> engine"
  tanks :: heap

definition engine_temporal :: "ref \<Rightarrow> world temporal" where
  "engine_temporal i dt w =
     (case tick dt (engines w i, tanks w) of
        (r, e1, h1) \<Rightarrow> (r, w\<lparr>engines := (engines w)(i := e1), tanks := h1\<rparr>))"

section \<open>Scenarios\<close>

text \<open>The tank of the scenario: RP-1, capacity \<open>10000 / 0.820\<close> millilitres.\<close>

definition scenario_tank :: tank where
  "scenario_tank = new_Tank RP_1 (jsdiv (Num 10000) (Num 0.820))"

text \<open>
  The two tanks that the application builds and fills, at references 0 (fuel) and 1
  (oxidizer), and its engine, connected to both.
\<close>

definition app_fuelTank :: tank where
  "app_fuelTank = snd (fillMass (Num 50000) (new_Tank RP_1 (jsdiv (Num 10000) (density RP_1))))"

definition app_oxidizerTank :: tank where
  "app_oxidizerTank =
     snd (fillMass (Num 100000)
            (new_Tank LIQUID_OXIGEN (jsdiv (Num 50000) (density LIQUID_OXIGEN))))"

definition app_heap :: heap where
  "app_heap = (\<lambda>r. if r = 0 then app_fuelTank else app_oxidizerTank)"

definition app_engine :: engine where
  "app_engine =
     (new_Engine (Num 7770000) (Num 788) (Num 2578))
       \<lparr>fuelTank := Some 0, oxidizerTank := Some 1\<rparr>"

text \<open>The engine once the application has switched both ignitions on and opened the throttle.\<close>

definition lit_engine :: engine where
  "lit_engine =
     app_engine\<lparr>throttle := Num 1, preburnerIgnition := True, chamberIgnition := True\<rparr>"

text \<open>
  The world of the application, with its two engines on the same two tanks; the same
  world with a first engine that was never connected to a tank; and the clock of rate 24
  with the two engines registered, before and after \<open>start\<close>.
\<close>

definition app_world :: world where
  "app_world = \<lparr>engines = (\<lambda>i. lit_engine), tanks = app_heap\<rparr>"

definition faulty_world :: world where
  "faulty_world =
     app_world\<lparr>engines := (engines app_world)(0 := new_Engine (Num 7770000) (Num 788) (Num 2578))\<rparr>"


definition inf_thrust_engine :: engine where
  "inf_thrust_engine =
     (new_Engine PosInf (Num 788) (Num 2578))
       \<lparr>fuelTank := Some 0, oxidizerTank := Some 1, throttle := Num 1,
        preburnerIgnition := True\<rparr>"

definition app_clock :: "world clock" where
  "app_clock = register_all [engine_temporal 0, engine_temporal 1] (new_Clock (Num 24))"

definition running_clock :: "world clock" where
  "running_clock = snd (start 1 app_clock)"

section \<open>Arithmetic on finite numbers\<close>

lemma jsmin_Num [simp]: "jsmin (Num a) (Num b) = Num (min a b)"
  by (simp add: min_def)

lemma jsmin_PosInf [simp]: "jsmin (Num a) PosInf = Num a"
  by simp

declare jsmin.simps [simp del]

lemma jsmin_NaN [simp]: "jsmin NaN y = NaN" "jsmin x NaN = NaN"
  by (cases x; simp add: jsmin.simps)+

lemma jssub_Num [simp]: "jssub (Num a) (Num b) = Num (a - b)"
  by (simp add: jssub_def)

lemma jsle_Num [simp]: "jsle (Num a) (Num b) = (a \<le> b)"
  by (simp add: not_less)

lemma jsgt_Num [simp]: "jsgt (Num a) (Num b) = (b < a)"
  by (simp add: jsgt_def)

lemma jsmul_nonneg:
  assumes "jsle (Num 0) v" and "0 < d"
  shows "jsle (Num 0) (jsmul v (Num d))"
  using assms by (cases v) (simp_all add: not_less)

section \<open>Tanks: what a fill and a drain return\<close>

lemma scenario_tank_fields:
  "level scenario_tank = Num 0" "massCapacity scenario_tank = Num 10"
  "density (compound scenario_tank) = Num (41 / 50000)"
  by (simp_all add: scenario_tank_def new_Tank_def RP_1_def new_Fuel_def)

text \<open>
  Claim C3, as the code has it. On a tank whose level \<open>l\<close> and mass capacity \<open>c\<close> are
  finite, \<open>fillMass(m)\<close> returns \<open>min(m, c - l)\<close> and \<open>drainMass(m)\<close> returns
  \<open>min(m, l)\<close>, and the level moves by exactly the returned mass. The returned mass
  never exceeds the request. It is not negative when the request is not negative and the
  level is at most \<open>c\<close> (for a fill) or at least 0 (for a drain) before the call; the
  methods do not look at the sign of the request. With a positive density \<open>d\<close>,
  \<open>fillVolume(v)\<close> clamps the mass \<open>v * d\<close> in the same way, moves the level by the
  clamped mass and returns the clamped mass divided by \<open>d\<close>, and \<open>drainVolume(v)\<close>
  alike; the returned volume is not negative under the same conditions. Nothing is
  stated on the returned volume against the requested one: the quotient
  \<open>(v * d) / d\<close> is \<open>v\<close> only when the product and the quotient are exact.
\<close>

theorem tank_fill_drain_clamp:
  assumes "level t = Num l" and "massCapacity t = Num c"
  shows "fillMass (Num m) t = (Num (min m (c - l)), t\<lparr>level := Num (l + min m (c - l))\<rparr>)
       \<and> drainMass (Num m) t = (Num (min m l), t\<lparr>level := Num (l - min m l)\<rparr>)
       \<and> jsle (fst (fillMass (Num m) t)) (Num m)
       \<and> jsle (fst (drainMass (Num m) t)) (Num m)
       \<and> (0 \<le> m \<and> l \<le> c \<longrightarrow> jsle (Num 0) (fst (fillMass (Num m) t)))
       \<and> (0 \<le> m \<and> 0 \<le> l \<longrightarrow> jsle (Num 0) (fst (drainMass (Num m) t)))
       \<and> (density (compound t) = Num d \<and> 0 < d \<longrightarrow>
            fillVolume (Num v) t
              = (Num (min (c - l) (v * d) / d), t\<lparr>level := Num (l + min (c - l) (v * d))\<rparr>)
          \<and> drainVolume (Num v) t
              = (Num (min l (v * d) / d), t\<lparr>level := Num (l - min l (v * d))\<rparr>)
          \<and> (0 \<le> v \<and> l \<le> c \<longrightarrow> jsle (Num 0) (fst (fillVolume (Num v) t)))
          \<and> (0 \<le> v \<and> 0 \<le> l \<longrightarrow> jsle (Num 0) (fst (drainVolume (Num v) t))))"
proof -
  have fm: "fillMass (Num m) t = (Num (min m (c - l)), t\<lparr>level := Num (l + min m (c - l))\<rparr>)"
    using assms by (simp add: fillMass_def Let_def min.commute)
  have dm: "drainMass (Num m) t = (Num (min m l), t\<lparr>level := Num (l - min m l)\<rparr>)"
    using assms by (simp add: drainMass_def Let_def min.commute)
  have vol: "fillVolume (Num v) t
              = (Num (min (c - l) (v * d) / d), t\<lparr>level := Num (l + min (c - l) (v * d))\<rparr>)
          \<and> drainVolume (Num v) t
              = (Num (min l (v * d) / d), t\<lparr>level := Num (l - min l (v * d))\<rparr>)"
    if "density (compound t) = Num d" and "0 < d"
    using assms that by (simp add: fillVolume_def drainVolume_def Let_def)
  have pos: "0 \<le> min x (v * d) / d" if "0 < d" and "0 \<le> v" and "0 \<le> x" for x
    using that by (simp add: divide_nonneg_pos)
  show ?thesis
    using fm dm vol pos [of "c - l"] pos [of l] by (simp add: not_less)
qed

theorem tank_fill_drain_clamp_witness:
  "fillMass (Num 4) (scenario_tank\<lparr>level := Num 7\<rparr>)
     = (Num 3, scenario_tank\<lparr>level := Num 10\<rparr>)
   \<and> drainMass (Num 8) (scenario_tank\<lparr>level := Num 7\<rparr>)
     = (Num 7, scenario_tank\<lparr>level := Num 0\<rparr>)
   \<and> fillVolume (Num 5000) (scenario_tank\<lparr>level := Num 7\<rparr>)
     = (Num (150000 / 41), scenario_tank\<lparr>level := Num 10\<rparr>)
   \<and> drainVolume (Num 10000) (scenario_tank\<lparr>level := Num 7\<rparr>)
     = (Num (350000 / 41), scenario_tank\<lparr>level := Num 0\<rparr>)
   \<and> jsle (fst (fillMass (Num 4) (scenario_tank\<lparr>level := Num 7\<rparr>))) (Num 4)
   \<and> jsle (fst (drainMass (Num 8) (scenario_tank\<lparr>level := Num 7\<rparr>))) (Num 8)
   \<and> jsle (Num 0) (fst (fillMass (Num 4) (scenario_tank\<lparr>level := Num 7\<rparr>)))
   \<and> jsle (Num 0) (fst (drainMass (Num 8) (scenario_tank\<lparr>level := Num 7\<rparr>)))
   \<and> jsle (Num 0) (fst (fillVolume (Num 5000) (scenario_tank\<lparr>level := Num 7\<rparr>)))
   \<and> jsle (Num 0) (fst (drainVolume (Num 10000) (scenario_tank\<lparr>level := Num 7\<rparr>)))"
  using tank_fill_drain_clamp [where t = "scenario_tank\<lparr>level := Num 7\<rparr>" and l = 7
      and c = 10 and d = "41 / 50000" and m = 4 and v = 5000]
    tank_fill_drain_clamp [where t = "scenario_tank\<lparr>level := Num 7\<rparr>" and l = 7
      and c = 10 and d = "41 / 50000" and m = 8 and v = 10000]
  by (simp add: scenario_tank_fields)

text \<open>
  Claim C3 as stated fails on a negative request: filling the empty scenario tank with
  \<open>-5\<close> returns \<open>-5\<close>, a negative amount.
\<close>

theorem tank_negative_request_counterexample:
  "fst (fillMass (Num (- 5)) scenario_tank) = Num (- 5)
   \<and> jslt (fst (fillMass (Num (- 5)) scenario_tank)) (Num 0)"
  by (simp add: fillMass_def Let_def scenario_tank_fields)

section \<open>Tanks: the range of the level\<close>

lemma level_in_range_Num:
  assumes "level_in_range t" and "massCapacity t = Num c"
  obtains l where "level t = Num l" and "0 \<le> l" and "l \<le> c"
  using assms by (cases "level t") (simp_all add: level_in_range_def)

text \<open>The volume variants change the tank as the mass variants do, on the converted request.\<close>

lemma snd_fillVolume: "snd (fillVolume v t) = snd (fillMass (jsmul v (density (compound t))) t)"
  by (simp add: fillVolume_def fillMass_def Let_def)

lemma snd_drainVolume: "snd (drainVolume v t) = snd (drainMass (jsmul v (density (compound t))) t)"
  by (simp add: drainVolume_def drainMass_def Let_def)

text \<open>
  With exact sums and differences, a call whose request is not negative keeps the level
  within \<open>[0, massCapacity]\<close>.
\<close>

lemma mass_call_keeps_range:
  assumes cap: "massCapacity t = Num c" and inv: "level_in_range t" and req: "jsle (Num 0) m"
  shows "level_in_range (snd (fillMass m t)) \<and> level_in_range (snd (drainMass m t))"
proof -
  from inv cap obtain l where l: "level t = Num l" "0 \<le> l" "l \<le> c"
    by (rule level_in_range_Num)
  from req consider (fin) r where "m = Num r" "0 \<le> r" | (inf) "m = PosInf"
    by (cases m) simp_all
  then show ?thesis
  proof cases
    case fin
    then show ?thesis
      using l cap
      by (auto simp add: level_in_range_def fillMass_def drainMass_def Let_def min_def)
  next
    case inf
    then show ?thesis
      using l cap by (simp add: level_in_range_def fillMass_def drainMass_def Let_def)
  qed
qed

lemma call_tank_frame:
  "massCapacity (snd (call_tank k t)) = massCapacity t
   \<and> compound (snd (call_tank k t)) = compound t"
  by (cases k) (simp_all add: fillVolume_def fillMass_def drainVolume_def drainMass_def Let_def)

lemma call_tank_keeps_range:
  assumes cap: "massCapacity t = Num c"
    and dens: "density (compound t) = Num d" and dpos: "0 < d"
    and inv: "level_in_range t"
    and req: "jsle (Num 0) (requested k)"
  shows "level_in_range (snd (call_tank k t))"
proof (cases k)
  case (FillVolume v)
  with req dpos have "jsle (Num 0) (jsmul v (Num d))" by (simp add: jsmul_nonneg)
  with cap inv show ?thesis
    using FillVolume dens by (simp add: snd_fillVolume mass_call_keeps_range)
next
  case (FillMass m)
  with cap inv req show ?thesis by (simp add: mass_call_keeps_range)
next
  case (DrainVolume v)
  with req dpos have "jsle (Num 0) (jsmul v (Num d))" by (simp add: jsmul_nonneg)
  with cap inv show ?thesis
    using DrainVolume dens by (simp add: snd_drainVolume mass_call_keeps_range)
next
  case (DrainMass m)
  with cap inv req show ?thesis by (simp add: mass_call_keeps_range)
qed

lemma call_tank_all_keeps_range:
  assumes "massCapacity t = Num c" and "density (compound t) = Num d" and "0 < d"
    and "level_in_range t" and "list_all (\<lambda>k. jsle (Num 0) (requested k)) ks"
  shows "level_in_range (call_tank_all ks t)"
  using assms
proof (induction ks arbitrary: t)
  case Nil
  then show ?case by simp
next
  case (Cons k ks)
  from Cons.prems have "jsle (Num 0) (requested k)" by simp
  with Cons.prems have step: "level_in_range (snd (call_tank k t))"
    by (intro call_tank_keeps_range) simp_all
  from Cons.prems have frame: "massCapacity (snd (call_tank k t)) = Num c"
      "density (compound (snd (call_tank k t))) = Num d"
    by (simp_all add: call_tank_frame)
  from Cons.prems have "list_all (\<lambda>k. jsle (Num 0) (requested k)) ks" by simp
  with step frame Cons.prems(3) show ?case
    by (simp add: Cons.IH)
qed

text \<open>
  The upper bound in the lemmas above rests on the exact result: the level after a
  clamped fill, \<open>level + (massCapacity - level)\<close>, is the mass capacity when the
  difference and the sum are exact, and can pass it by a rounding error when they are
  rounded. The lemmas below do not rest on that: they use only that a request that is
  not negative adds at least \<open>min(0, massCapacity - level)\<close> and removes at most the
  level.
\<close>

lemma mass_call_keeps_nonneg:
  assumes cap: "massCapacity t = Num c" "0 \<le> c" and lvl: "level t = Num l" "0 \<le> l"
    and req: "jsle (Num 0) m"
  shows "(\<exists>l'. level (snd (fillMass m t)) = Num l' \<and> 0 \<le> l')
       \<and> (\<exists>l'. level (snd (drainMass m t)) = Num l' \<and> 0 \<le> l')"
proof -
  from req consider (fin) r where "m = Num r" "0 \<le> r" | (inf) "m = PosInf"
    by (cases m) simp_all
  then show ?thesis
  proof cases
    case fin
    then show ?thesis
      using cap lvl by (auto simp add: fillMass_def drainMass_def Let_def min_def)
  next
    case inf
    then show ?thesis
      using cap lvl by (simp add: fillMass_def drainMass_def Let_def)
  qed
qed

lemma call_tank_keeps_nonneg:
  assumes cap: "massCapacity t = Num c" "0 \<le> c"
    and dens: "density (compound t) = Num d" "0 < d"
    and lvl: "level t = Num l" "0 \<le> l"
    and req: "jsle (Num 0) (requested k)"
  shows "\<exists>l'. level (snd (call_tank k t)) = Num l' \<and> 0 \<le> l'"
proof (cases k)
  case (FillVolume v)
  with req dens have "jsle (Num 0) (jsmul v (Num d))" by (simp add: jsmul_nonneg)
  with cap lvl show ?thesis
    using FillVolume dens mass_call_keeps_nonneg [of t c l "jsmul v (Num d)"]
    by (simp add: snd_fillVolume)
next
  case (FillMass m)
  with cap lvl req show ?thesis
    using mass_call_keeps_nonneg [of t c l m] by simp
next
  case (DrainVolume v)
  with req dens have "jsle (Num 0) (jsmul v (Num d))" by (simp add: jsmul_nonneg)
  with cap lvl show ?thesis
    using DrainVolume dens mass_call_keeps_nonneg [of t c l "jsmul v (Num d)"]
    by (simp add: snd_drainVolume)
next
  case (DrainMass m)
  with cap lvl req show ?thesis
    using mass_call_keeps_nonneg [of t c l m] by simp
qed

lemma call_tank_all_keeps_nonneg:
  assumes "massCapacity t = Num c" and "0 \<le> c"
    and "density (compound t) = Num d" and "0 < d"
    and "level t = Num l" and "0 \<le> l"
    and "list_all (\<lambda>k. jsle (Num 0) (requested k)) ks"
  shows "\<exists>l'. level (call_tank_all ks t) = Num l' \<and> 0 \<le> l'"
  using assms
proof (induction ks arbitrary: t l)
  case Nil
  then show ?case by simp
next
  case (Cons k ks)
  from Cons.prems have "jsle (Num 0) (requested k)" by simp
  with Cons.prems obtain l' where l': "level (snd (call_tank k t)) = Num l'" "0 \<le> l'"
    using call_tank_keeps_nonneg [of t c d l k] by auto
  from Cons.prems have frame: "massCapacity (snd (call_tank k t)) = Num c"
      "density (compound (snd (call_tank k t))) = Num d"
    by (simp_all add: call_tank_frame)
  from Cons.prems have "list_all (\<lambda>k. jsle (Num 0) (requested k)) ks" by simp
  with frame l' Cons.prems(2,4) show ?case
    using Cons.IH [of "snd (call_tank k t)" l'] by simp
qed

lemma call_tank_all_frame:
  "massCapacity (call_tank_all ks t) = massCapacity t
   \<and> compound (call_tank_all ks t) = compound t"
  by (induction ks arbitrary: t) (simp_all add: call_tank_frame)

lemma mass_call_never_raises:
  assumes cap: "massCapacity t = Num c" and lvl: "level t = Num l" "0 \<le> l"
    and req: "jsle (Num 0) m"
  shows "jsle (level (snd (drainMass m t))) (level t)
       \<and> (c \<le> l \<longrightarrow> jsle (level (snd (fillMass m t))) (level t))"
proof -
  from req consider (fin) r where "m = Num r" "0 \<le> r" | (inf) "m = PosInf"
    by (cases m) simp_all
  then show ?thesis
  proof cases
    case fin
    then show ?thesis
      using cap lvl by (auto simp add: fillMass_def drainMass_def Let_def min_def)
  next
    case inf
    then show ?thesis
      using cap lvl by (simp add: fillMass_def drainMass_def Let_def)
  qed
qed

lemma call_never_raises:
  assumes cap: "massCapacity t = Num c"
    and dens: "density (compound t) = Num d" "0 < d"
    and lvl: "level t = Num l" "0 \<le> l"
    and req: "jsle (Num 0) m"
  shows "jsle (level (snd (call_tank (DrainMass m) t))) (level t)
       \<and> jsle (level (snd (call_tank (DrainVolume m) t))) (level t)
       \<and> (jsle (massCapacity t) (level t) \<longrightarrow>
            jsle (level (snd (call_tank (FillMass m) t))) (level t)
          \<and> jsle (level (snd (call_tank (FillVolume m) t))) (level t))"
proof -
  from req dens have "jsle (Num 0) (jsmul m (Num d))" by (simp add: jsmul_nonneg)
  then show ?thesis
    using mass_call_never_raises [OF cap lvl req]
      mass_call_never_raises [OF cap lvl, of "jsmul m (Num d)"] cap lvl dens
    by (simp add: snd_fillVolume snd_drainVolume)
qed

text \<open>
  Claim C4, as the code has it. On a tank with a finite mass capacity that is not
  negative, a positive density and a finite level that is not negative, after every call
  of a sequence of \<open>fillVolume\<close>, \<open>fillMass\<close>, \<open>drainVolume\<close> and \<open>drainMass\<close>
  calls whose requested amounts are not negative (\<open>take n ks\<close> is the sequence up to
  its \<open>n\<close>-th call), the level is not negative; from the tank so reached, a further
  drain of an amount that is not negative does not raise the level, and neither does a
  further fill when the level has reached the mass capacity.
\<close>

theorem tank_level_lower_bound:
  assumes "massCapacity t = Num c" and "0 \<le> c"
    and "density (compound t) = Num d" and "0 < d"
    and "level t = Num l" and "0 \<le> l"
    and "list_all (\<lambda>k. jsle (Num 0) (requested k)) ks" and "jsle (Num 0) m"
  shows "jsle (Num 0) (level (call_tank_all (take n ks) t))
       \<and> jsle (level (snd (call_tank (DrainMass m) (call_tank_all (take n ks) t))))
              (level (call_tank_all (take n ks) t))
       \<and> jsle (level (snd (call_tank (DrainVolume m) (call_tank_all (take n ks) t))))
              (level (call_tank_all (take n ks) t))
       \<and> (jsle (massCapacity (call_tank_all (take n ks) t)) (level (call_tank_all (take n ks) t))
          \<longrightarrow> jsle (level (snd (call_tank (FillMass m) (call_tank_all (take n ks) t))))
                   (level (call_tank_all (take n ks) t))
            \<and> jsle (level (snd (call_tank (FillVolume m) (call_tank_all (take n ks) t))))
                   (level (call_tank_all (take n ks) t)))"
proof -
  define t1 where "t1 = call_tank_all (take n ks) t"
  have "list_all (\<lambda>k. jsle (Num 0) (requested k)) (take n ks)"
    using assms(7) by (auto simp add: list_all_iff dest: in_set_takeD)
  with assms(1-6) obtain l1 where l1: "level t1 = Num l1" "0 \<le> l1"
    using call_tank_all_keeps_nonneg [of t c d l "take n ks"] by (auto simp add: t1_def)
  have frame: "massCapacity t1 = Num c" "density (compound t1) = Num d"
    using assms(1,3) by (simp_all add: t1_def call_tank_all_frame)
  have "jsle (Num 0) (level t1)"
    using l1 by simp
  then show ?thesis
    using call_never_raises [OF frame(1) frame(2) assms(4) l1 assms(8)]
    unfolding t1_def by blast
qed


theorem tank_level_lower_bound_witness:
  "jsle (Num 0) (level (call_tank_all
      (take 3 [FillMass (Num 50000), DrainVolume (Num 5000), FillVolume PosInf, DrainMass (Num 1)])
      scenario_tank))
   \<and> jsle (massCapacity (call_tank_all
      (take 3 [FillMass (Num 50000), DrainVolume (Num 5000), FillVolume PosInf, DrainMass (Num 1)])
      scenario_tank))
        (level (call_tank_all
      (take 3 [FillMass (Num 50000), DrainVolume (Num 5000), FillVolume PosInf, DrainMass (Num 1)])
      scenario_tank))
   \<and> jsle (level (snd (call_tank (FillMass (Num 2)) (call_tank_all
      (take 3 [FillMass (Num 50000), DrainVolume (Num 5000), FillVolume PosInf, DrainMass (Num 1)])
      scenario_tank))))
        (level (call_tank_all
      (take 3 [FillMass (Num 50000), DrainVolume (Num 5000), FillVolume PosInf, DrainMass (Num 1)])
      scenario_tank))
   \<and> jsle (level (snd (call_tank (DrainMass (Num 2)) (call_tank_all
      (take 3 [FillMass (Num 50000), DrainVolume (Num 5000), FillVolume PosInf, DrainMass (Num 1)])
      scenario_tank))))
        (level (call_tank_all
      (take 3 [FillMass (Num 50000), DrainVolume (Num 5000), FillVolume PosInf, DrainMass (Num 1)])
      scenario_tank))"
proof -
  have req: "list_all (\<lambda>k. jsle (Num 0) (requested k))
      [FillMass (Num 50000), DrainVolume (Num 5000), FillVolume PosInf, DrainMass (Num 1)]"
    by simp
  have full: "jsle (massCapacity (call_tank_all
      (take 3 [FillMass (Num 50000), DrainVolume (Num 5000), FillVolume PosInf, DrainMass (Num 1)])
      scenario_tank))
        (level (call_tank_all
      (take 3 [FillMass (Num 50000), DrainVolume (Num 5000), FillVolume PosInf, DrainMass (Num 1)])
      scenario_tank))"
    by (simp add: fillMass_def fillVolume_def drainVolume_def Let_def scenario_tank_fields)
  show ?thesis
    using req full
      tank_level_lower_bound [where t = scenario_tank and c = 10 and d = "41 / 50000"
        and l = 0 and n = 3 and m = "Num 2"
        and ks = "[FillMass (Num 50000), DrainVolume (Num 5000), FillVolume PosInf,
                   DrainMass (Num 1)]"]
    by (simp add: scenario_tank_fields)
qed

text \<open>
  Claim C4 as stated fails on a negative request: draining \<open>-5\<close> from the full scenario
  tank leaves its level at 15, above the mass capacity 10, and filling the empty tank
  with \<open>-5\<close> leaves its level at \<open>-5\<close>.
\<close>

theorem tank_level_invariant_counterexample:
  "\<not> level_in_range (call_tank_all [FillMass (Num 50000), DrainMass (Num (- 5))] scenario_tank)
   \<and> level (call_tank_all [FillMass (Num 50000), DrainMass (Num (- 5))] scenario_tank) = Num 15
   \<and> massCapacity (call_tank_all [FillMass (Num 50000), DrainMass (Num (- 5))] scenario_tank)
       = Num 10
   \<and> \<not> level_in_range (call_tank_all [FillMass (Num (- 5))] scenario_tank)"
  by (simp add: level_in_range_def fillMass_def drainMass_def Let_def scenario_tank_fields)

section \<open>Tanks: the scenario\<close>

text \<open>
  Claim C8, as the code has it. The mass capacity of \<open>Tank(RP-1, 10000 / 0.820)\<close> is
  \<open>10000 / 0.820 * 0.000820 = 10\<close>. On the empty tank \<open>fillMass(50000)\<close> returns
  the mass capacity, 10, and leaves the mass level at 10; \<open>fillMass(20000)\<close> on the
  tank now full returns 0 and leaves the level where it is.
\<close>

theorem scenario_fill_clamped:
  "massCapacity scenario_tank = Num 10
   \<and> get_massLevel scenario_tank = Num 0
   \<and> fst (fillMass (Num 50000) scenario_tank) = Num 10
   \<and> get_massLevel (snd (fillMass (Num 50000) scenario_tank)) = Num 10
   \<and> fst (fillMass (Num 20000) (snd (fillMass (Num 50000) scenario_tank))) = Num 0
   \<and> get_massLevel (snd (fillMass (Num 20000) (snd (fillMass (Num 50000) scenario_tank))))
       = Num 10"
  by (simp add: fillMass_def Let_def get_massLevel_def scenario_tank_fields)

text \<open>Claim C8 as stated fails: the first fill does not return 50000.\<close>

theorem scenario_fill_counterexample:
  "fst (fillMass (Num 50000) scenario_tank) \<noteq> Num 50000
   \<and> get_massLevel (snd (fillMass (Num 50000) scenario_tank)) \<noteq> Num 50000"
  by (simp add: fillMass_def Let_def get_massLevel_def scenario_tank_fields)

section \<open>Engines: the two stages on finite numbers\<close>

text \<open>
  The fuel port of an engine only accepts a tank of fuel and its oxidizer port a tank of
  oxidizer, so the two ports of an engine never hold the same tank.
\<close>

lemma ports_distinct:
  assumes "set_fuelTank (Some f) h e = (None, e1)" and "set_oxidizerTank (Some ox) h e1 = (None, e2)"
  shows "f \<noteq> ox \<and> fuelTank e2 = Some f \<and> oxidizerTank e2 = Some ox"
  using assms by (auto simp add: set_fuelTank_def set_oxidizerTank_def split: if_splits)

lemma app_ports:
  "set_fuelTank (Some 0) app_heap (new_Engine (Num 7770000) (Num 788) (Num 2578))
     = (None, (new_Engine (Num 7770000) (Num 788) (Num 2578))\<lparr>fuelTank := Some 0\<rparr>)"
  "set_oxidizerTank (Some 1) app_heap
       ((new_Engine (Num 7770000) (Num 788) (Num 2578))\<lparr>fuelTank := Some 0\<rparr>)
     = (None, app_engine)"
  by (simp_all add: set_fuelTank_def set_oxidizerTank_def app_heap_def app_fuelTank_def
      app_oxidizerTank_def app_engine_def new_Tank_def fillMass_def Let_def RP_1_def
      LIQUID_OXIGEN_def new_Fuel_def new_Oxidizer_def)

lemma drainMass_at_Num:
  assumes "level (h r) = Num l"
  shows "drainMass_at r (Num m) h = (Num (min l m), h(r := (h r)\<lparr>level := Num (l - min l m)\<rparr>))"
  using assms by (simp add: drainMass_at_def drainMass_def Let_def)

lemma CHAMBER_TAP_OFF_Num: "CHAMBER_TAP_OFF = Num 0.95"
  by (simp add: CHAMBER_TAP_OFF_def PREBURNER_TAP_OFF_def)

lemma preburner_body_Num:
  assumes "fuelFlow e = Num ff" and "oxidizerFlow e = Num fo" and "throttle e = Num th"
    and "level (h f) = Num lf" and "level (h ox) = Num lo" and "f \<noteq> ox"
  shows "preburner_body (Num d) e f ox h =
     \<lparr>coeff_a = Num (0.05 * d), coeff_b = Num (0.05 * d * th),
      fuelRequested = Num (ff * (0.05 * d * th)), oxidizerRequested = Num (fo * (0.05 * d * th)),
      fuelDrained = Num (min lf (ff * (0.05 * d * th))),
      oxidizerDrained = Num (min lo (fo * (0.05 * d * th))),
      fuelSupply = jsdiv (Num (min lf (ff * (0.05 * d * th)))) (Num (ff * (0.05 * d))),
      oxidizerSupply = jsdiv (Num (min lo (fo * (0.05 * d * th)))) (Num (fo * (0.05 * d))),
      heap_after = h(f := (h f)\<lparr>level := Num (lf - min lf (ff * (0.05 * d * th)))\<rparr>,
                     ox := (h ox)\<lparr>level := Num (lo - min lo (fo * (0.05 * d * th)))\<rparr>)\<rparr>"
  using assms
  by (simp add: preburner_body_def PREBURNER_TAP_OFF_def drainMass_at_Num Let_def del: jsdiv.simps)

lemma pump_body_Num:
  assumes "fuelFlow e = Num ff" and "oxidizerFlow e = Num fo" and "preburnerCombustion e = Num pc"
    and "level (h f) = Num lf" and "level (h ox) = Num lo" and "f \<noteq> ox"
  shows "pump_body (Num d) e f ox h =
     \<lparr>coeff_a = Num (0.95 * d), coeff_b = Num (0.95 * d * pc),
      fuelRequested = Num (ff * (0.95 * d * pc)), oxidizerRequested = Num (fo * (0.95 * d * pc)),
      fuelDrained = Num (min lf (ff * (0.95 * d * pc))),
      oxidizerDrained = Num (min lo (fo * (0.95 * d * pc))),
      fuelSupply = jsdiv (Num (min lf (ff * (0.95 * d * pc)))) (Num (ff * (0.95 * d))),
      oxidizerSupply = jsdiv (Num (min lo (fo * (0.95 * d * pc)))) (Num (fo * (0.95 * d))),
      heap_after = h(f := (h f)\<lparr>level := Num (lf - min lf (ff * (0.95 * d * pc)))\<rparr>,
                     ox := (h ox)\<lparr>level := Num (lo - min lo (fo * (0.95 * d * pc)))\<rparr>)\<rparr>"
  using assms
  by (simp add: pump_body_def CHAMBER_TAP_OFF_Num drainMass_at_Num Let_def del: jsdiv.simps)

lemma app_heap_fields:
  "level (app_heap 0) = Num 10000" "level (app_heap 1) = Num 50000"
  "level (app_heap (Suc 0)) = Num 50000"
  by (simp_all add: app_heap_def app_fuelTank_def app_oxidizerTank_def new_Tank_def RP_1_def
      LIQUID_OXIGEN_def new_Fuel_def new_Oxidizer_def fillMass_def Let_def)

lemma app_engine_fields:
  "fuelFlow app_engine = Num 788" "oxidizerFlow app_engine = Num 2578"
  "fuelTank app_engine = Some 0" "oxidizerTank app_engine = Some 1"
  "throttle app_engine = Num 0" "preburnerCombustion app_engine = Num 0"
  "chamberCombustion app_engine = Num 0"
  "preburnerIgnition app_engine = False" "chamberIgnition app_engine = False"
  by (simp_all add: app_engine_def new_Engine_def)

text \<open>
  Claim C1, as the code has it. In a tick with both tanks attached (all numbers finite,
  elapsed time \<open>d\<close>), the pre-burner stage requests the fuel mass
  \<open>fuelFlow * 0.05 * throttle * d\<close> (oxidizer alike) and drains the minimum of the
  tank's level and the request. Its supply ratio is the drained mass divided by
  \<open>fuelFlow * 0.05 * d\<close>, the request of a tick at full throttle, not by the request
  itself; it is a number when \<open>fuelFlow * d\<close> is not zero. The pump stage does the
  same with the request \<open>fuelFlow * 0.95 * preburnerCombustion * d\<close> and the ratio of
  the drained mass to \<open>fuelFlow * 0.95 * d\<close>.
\<close>

theorem stage_requests_and_supplies:
  assumes "fuelFlow e = Num ff" and "oxidizerFlow e = Num fo" and "throttle e = Num th"
    and "preburnerCombustion e = Num pc"
    and "level (h f) = Num lf" and "level (h ox) = Num lo" and "f \<noteq> ox"
  shows "fuelRequested (preburner_body (Num d) e f ox h) = Num (ff * 0.05 * th * d)
       \<and> oxidizerRequested (preburner_body (Num d) e f ox h) = Num (fo * 0.05 * th * d)
       \<and> fuelDrained (preburner_body (Num d) e f ox h) = Num (min lf (ff * 0.05 * th * d))
       \<and> oxidizerDrained (preburner_body (Num d) e f ox h) = Num (min lo (fo * 0.05 * th * d))
       \<and> (ff * d \<noteq> 0 \<longrightarrow> fuelSupply (preburner_body (Num d) e f ox h)
              = Num (min lf (ff * 0.05 * th * d) / (ff * 0.05 * d)))
       \<and> (fo * d \<noteq> 0 \<longrightarrow> oxidizerSupply (preburner_body (Num d) e f ox h)
              = Num (min lo (fo * 0.05 * th * d) / (fo * 0.05 * d)))
       \<and> fuelRequested (pump_body (Num d) e f ox h) = Num (ff * 0.95 * pc * d)
       \<and> oxidizerRequested (pump_body (Num d) e f ox h) = Num (fo * 0.95 * pc * d)
       \<and> fuelDrained (pump_body (Num d) e f ox h) = Num (min lf (ff * 0.95 * pc * d))
       \<and> oxidizerDrained (pump_body (Num d) e f ox h) = Num (min lo (fo * 0.95 * pc * d))
       \<and> (ff * d \<noteq> 0 \<longrightarrow> fuelSupply (pump_body (Num d) e f ox h)
              = Num (min lf (ff * 0.95 * pc * d) / (ff * 0.95 * d)))
       \<and> (fo * d \<noteq> 0 \<longrightarrow> oxidizerSupply (pump_body (Num d) e f ox h)
              = Num (min lo (fo * 0.95 * pc * d) / (fo * 0.95 * d)))"
  using assms
  by (simp add: preburner_body_Num [where th = th] pump_body_Num [where pc = pc] mult_ac)

theorem stage_requests_and_supplies_witness:
  "fuelRequested (preburner_body (Num 1) (app_engine\<lparr>throttle := Num (1 / 2)\<rparr>) 0 1 app_heap)
     = Num (197 / 10)
   \<and> fuelDrained (preburner_body (Num 1) (app_engine\<lparr>throttle := Num (1 / 2)\<rparr>) 0 1 app_heap)
     = Num (197 / 10)
   \<and> fuelSupply (preburner_body (Num 1) (app_engine\<lparr>throttle := Num (1 / 2)\<rparr>) 0 1 app_heap)
     = Num (1 / 2)
   \<and> oxidizerSupply (preburner_body (Num 1) (app_engine\<lparr>throttle := Num (1 / 2)\<rparr>) 0 1 app_heap)
     = Num (1 / 2)
   \<and> fuelRequested (pump_body (Num 1) (app_engine\<lparr>throttle := Num (1 / 2)\<rparr>) 0 1 app_heap)
     = Num 0
   \<and> fuelSupply (pump_body (Num 1) (app_engine\<lparr>throttle := Num (1 / 2)\<rparr>) 0 1 app_heap)
     = Num 0"
  using stage_requests_and_supplies [where e = "app_engine\<lparr>throttle := Num (1 / 2)\<rparr>"
      and h = app_heap and f = 0 and ox = 1 and ff = 788 and fo = 2578 and th = "1 / 2"
      and pc = 0 and lf = 10000 and lo = 50000 and d = 1]
  by (simp add: app_heap_fields app_engine_fields)

text \<open>
  Claim C1 as stated fails. At half throttle with full tanks the pre-burner drains all
  it requests, so that drained over requested is 1, yet its fuel supply ratio is
  \<open>1 / 2\<close>. With an elapsed time of 0 the request and the denominator are 0 and the
  supply ratio is NaN, not 1.
\<close>

theorem supply_ratio_counterexample:
  "fuelSupply (preburner_body (Num 1) (app_engine\<lparr>throttle := Num (1 / 2)\<rparr>) 0 1 app_heap)
     = Num (1 / 2)
   \<and> jsdiv (fuelDrained (preburner_body (Num 1) (app_engine\<lparr>throttle := Num (1 / 2)\<rparr>) 0 1 app_heap))
           (fuelRequested (preburner_body (Num 1) (app_engine\<lparr>throttle := Num (1 / 2)\<rparr>) 0 1 app_heap))
     = Num 1
   \<and> fuelRequested (preburner_body (Num 0) (app_engine\<lparr>throttle := Num (1 / 2)\<rparr>) 0 1 app_heap)
     = Num 0
   \<and> fuelSupply (preburner_body (Num 0) (app_engine\<lparr>throttle := Num (1 / 2)\<rparr>) 0 1 app_heap)
     = NaN"
  by (simp add: preburner_body_Num [where ff = 788 and fo = 2578 and th = "1 / 2"
        and lf = 10000 and lo = 50000] app_heap_fields app_engine_fields)

section \<open>Engines: a tick of the lit engine\<close>

lemma lit_engine_fields:
  "fuelFlow lit_engine = Num 788" "oxidizerFlow lit_engine = Num 2578"
  "fuelTank lit_engine = Some 0" "oxidizerTank lit_engine = Some 1"
  "throttle lit_engine = Num 1" "preburnerCombustion lit_engine = Num 0"
  "chamberCombustion lit_engine = Num 0"
  "preburnerIgnition lit_engine = True" "chamberIgnition lit_engine = True"
  by (simp_all add: lit_engine_def app_engine_fields)

lemma tick_lit_engine:
  "tick (Num (1 / 24)) (lit_engine, app_heap) =
     (None, lit_engine\<lparr>preburnerCombustion := Num 1, chamberCombustion := Num 1\<rparr>,
      app_heap(0 := (app_heap 0)\<lparr>level := Num (59803 / 6)\<rparr>,
               1 := (app_heap 1)\<lparr>level := Num (598711 / 12)\<rparr>))"
proof -
  have pre: "preburner (Num (1 / 24)) (lit_engine, app_heap) =
      (None, lit_engine\<lparr>preburnerCombustion := Num 1\<rparr>,
       app_heap(0 := (app_heap 0)\<lparr>level := Num (1199803 / 120)\<rparr>,
                1 := (app_heap 1)\<lparr>level := Num (11998711 / 240)\<rparr>))"
    by (simp add: preburner_def lit_engine_fields app_heap_fields
        preburner_body_Num [where ff = 788 and fo = 2578 and th = 1 and lf = 10000 and lo = 50000])
  have pmp: "pump (Num (1 / 24)) (lit_engine\<lparr>preburnerCombustion := Num 1\<rparr>,
       app_heap(0 := (app_heap 0)\<lparr>level := Num (1199803 / 120)\<rparr>,
                1 := (app_heap 1)\<lparr>level := Num (11998711 / 240)\<rparr>)) =
      (Inr (Num 1),
       app_heap(0 := (app_heap 0)\<lparr>level := Num (59803 / 6)\<rparr>,
                1 := (app_heap 1)\<lparr>level := Num (598711 / 12)\<rparr>))"
    by (simp add: pump_def lit_engine_fields
        pump_body_Num [where ff = 788 and fo = 2578 and pc = 1
          and lf = "1199803 / 120" and lo = "11998711 / 240"])
  show ?thesis
    using pre pmp by (simp add: tick_def chamber_def lit_engine_fields)
qed

section \<open>Engines: the tick\<close>












text \<open>
  Claim C6. A tick of an engine whose fuel tank is unset raises the fault of the missing
  fuel tank; a tick of an engine with a fuel tank whose oxidizer tank is unset raises the
  fault of the missing oxidizer tank. In both cases the engine, and with it the two
  combustion levels, and every tank are as they were before the call: nothing was
  drained.
\<close>

theorem tick_without_tank:
  "(fuelTank e = None \<longrightarrow>
      tick dt (e, h) = (Some (NoFuelTankConnectedError ''Fuel tank is not connected''), e, h))
   \<and> (fuelTank e = Some f \<and> oxidizerTank e = None \<longrightarrow>
      tick dt (e, h)
        = (Some (NoOxidizerTankConnectedError ''Oxidizer tank is not connected''), e, h))"
  by (simp add: tick_def preburner_def)

theorem tick_without_tank_witness:
  "tick (Num 1) (new_Engine (Num 7770000) (Num 788) (Num 2578), app_heap)
     = (Some (NoFuelTankConnectedError ''Fuel tank is not connected''),
        new_Engine (Num 7770000) (Num 788) (Num 2578), app_heap)
   \<and> tick (Num 1) (app_engine\<lparr>oxidizerTank := None\<rparr>, app_heap)
     = (Some (NoOxidizerTankConnectedError ''Oxidizer tank is not connected''),
        app_engine\<lparr>oxidizerTank := None\<rparr>, app_heap)"
  using tick_without_tank [where e = "new_Engine (Num 7770000) (Num 788) (Num 2578)"
      and h = app_heap and dt = "Num 1"]
    tick_without_tank [where e = "app_engine\<lparr>oxidizerTank := None\<rparr>"
      and h = app_heap and dt = "Num 1" and f = 0]
  by (simp add: new_Engine_def app_engine_fields)

text \<open>
  Claim C10. An engine with both tanks attached, throttle and elapsed time positive,
  both ignitions off and both combustion levels 0 (all numbers finite): the pre-burner
  stage of the tick withdraws \<open>min(level, fuelFlow * 0.05 * throttle * elapsed)\<close> of
  fuel, and the like of oxidizer, and the tick leaves the tanks at their levels less
  these amounts, strictly lower for a positive flow and a positive level, while the
  tick raises no fault and both combustion levels and the thrust level are 0 after it.
\<close>

theorem tick_unlit_drains:
  assumes "fuelTank e = Some f" and "oxidizerTank e = Some ox" and "f \<noteq> ox"
    and "fuelFlow e = Num ff" and "oxidizerFlow e = Num fo"
    and "throttle e = Num th" and "0 < th" and "0 < d"
    and "preburnerIgnition e = False" and "chamberIgnition e = False"
    and "preburnerCombustion e = Num 0" and "chamberCombustion e = Num 0"
    and "level (h f) = Num lf" and "level (h ox) = Num lo"
  shows "fuelDrained (preburner_body (Num d) e f ox h) = Num (min lf (ff * 0.05 * th * d))
       \<and> oxidizerDrained (preburner_body (Num d) e f ox h) = Num (min lo (fo * 0.05 * th * d))
       \<and> fst (tick (Num d) (e, h)) = None
       \<and> level (snd (snd (tick (Num d) (e, h))) f) = Num (lf - min lf (ff * 0.05 * th * d))
       \<and> level (snd (snd (tick (Num d) (e, h))) ox) = Num (lo - min lo (fo * 0.05 * th * d))
       \<and> preburnerCombustion (fst (snd (tick (Num d) (e, h)))) = Num 0
       \<and> chamberCombustion (fst (snd (tick (Num d) (e, h)))) = Num 0
       \<and> get_thrustLevel (fst (snd (tick (Num d) (e, h)))) = Num 0
       \<and> (0 < ff \<and> 0 < lf \<longrightarrow> jslt (level (snd (snd (tick (Num d) (e, h))) f)) (level (h f)))
       \<and> (0 < fo \<and> 0 < lo \<longrightarrow> jslt (level (snd (snd (tick (Num d) (e, h))) ox)) (level (h ox)))"
proof -
  define rf where "rf = ff * (0.05 * d * th)"
  define ro where "ro = fo * (0.05 * d * th)"
  define e1 where "e1 = e\<lparr>preburnerCombustion := Num 0\<rparr>"
  define h1 where "h1 = h(f := (h f)\<lparr>level := Num (lf - min lf rf)\<rparr>,
                         ox := (h ox)\<lparr>level := Num (lo - min lo ro)\<rparr>)"
  have r: "rf = ff * 0.05 * th * d" "ro = fo * 0.05 * th * d"
    by (simp_all add: rf_def ro_def)
  have body: "fuelDrained (preburner_body (Num d) e f ox h) = Num (min lf rf)"
      "oxidizerDrained (preburner_body (Num d) e f ox h) = Num (min lo ro)"
      "heap_after (preburner_body (Num d) e f ox h) = h1"
    using assms
    by (simp_all add: preburner_body_Num [where th = th] rf_def ro_def h1_def del: jsdiv.simps)
  have pre: "preburner (Num d) (e, h) = (None, e1, h1)"
    using assms(1,2,9,11) body(3) by (simp add: preburner_def e1_def Let_def)
  have h1l: "level (h1 f) = Num (lf - min lf rf)" "level (h1 ox) = Num (lo - min lo ro)"
    using assms(3) by (simp_all add: h1_def)
  have e1f: "fuelFlow e1 = Num ff" "oxidizerFlow e1 = Num fo" "preburnerCombustion e1 = Num 0"
      "fuelTank e1 = Some f" "oxidizerTank e1 = Some ox"
      "chamberIgnition e1 = False" "chamberCombustion e1 = Num 0"
    using assms by (simp_all add: e1_def)
  have nn: "min (lf - min lf rf) 0 = 0" "min (lo - min lo ro) 0 = 0"
    by (simp_all add: min_def)
  have pb: "pump_body (Num d) e1 f ox h1 =
     \<lparr>coeff_a = Num (0.95 * d), coeff_b = Num 0,
      fuelRequested = Num 0, oxidizerRequested = Num 0,
      fuelDrained = Num 0, oxidizerDrained = Num 0,
      fuelSupply = jsdiv (Num 0) (Num (ff * (0.95 * d))),
      oxidizerSupply = jsdiv (Num 0) (Num (fo * (0.95 * d))),
      heap_after = h1(f := (h1 f)\<lparr>level := Num (lf - min lf rf)\<rparr>,
                      ox := (h1 ox)\<lparr>level := Num (lo - min lo ro)\<rparr>)\<rparr>"
    using pump_body_Num [OF e1f(1,2,3) h1l assms(3), of d]
    by (simp add: nn del: jsdiv.simps)
  define mixture where "mixture = jsmin (jsdiv (Num 0) (Num (ff * (0.95 * d))))
      (jsdiv (Num 0) (Num (fo * (0.95 * d))))"
  have mix: "mixture = NaN \<or> mixture = Num 0"
    by (simp add: mixture_def)
  have pmp: "pump (Num d) (e1, h1)
      = (Inr mixture, h1(f := (h1 f)\<lparr>level := Num (lf - min lf rf)\<rparr>,
                         ox := (h1 ox)\<lparr>level := Num (lo - min lo ro)\<rparr>))"
    using e1f(4,5) by (simp add: pump_def pb mixture_def Let_def del: jsdiv.simps)
  have ch: "chamber mixture e1 = (None, e1\<lparr>chamberCombustion := Num 0\<rparr>)"
    using mix e1f(6,7) by (auto simp add: chamber_def jsgt_def)
  have tk: "tick (Num d) (e, h)
      = (None, e1\<lparr>chamberCombustion := Num 0\<rparr>,
         h1(f := (h1 f)\<lparr>level := Num (lf - min lf rf)\<rparr>,
            ox := (h1 ox)\<lparr>level := Num (lo - min lo ro)\<rparr>))"
    using pre pmp ch by (simp add: tick_def)
  have lv: "level (snd (snd (tick (Num d) (e, h))) f) = Num (lf - min lf rf)"
      "level (snd (snd (tick (Num d) (e, h))) ox) = Num (lo - min lo ro)"
    using assms(3) by (simp_all add: tk)
  have lvl: "fst (tick (Num d) (e, h)) = None"
      "preburnerCombustion (fst (snd (tick (Num d) (e, h)))) = Num 0"
      "chamberCombustion (fst (snd (tick (Num d) (e, h)))) = Num 0"
      "get_thrustLevel (fst (snd (tick (Num d) (e, h)))) = Num 0"
    by (simp_all add: tk e1_def get_thrustLevel_def PREBURNER_TAP_OFF_def CHAMBER_TAP_OFF_Num)
  have "0 < rf" if "0 < ff"
    using that assms(7,8) by (simp add: rf_def)
  then have df: "lf - min lf rf < lf" if "0 < ff" "0 < lf"
    using that by (simp add: min_def)
  have "0 < ro" if "0 < fo"
    using that assms(7,8) by (simp add: ro_def)
  then have dox: "lo - min lo ro < lo" if "0 < fo" "0 < lo"
    using that by (simp add: min_def)
  show ?thesis
    using body(1,2) lv lvl df dox assms(13,14) by (simp add: r)
qed

theorem tick_unlit_drains_witness:
  "fst (tick (Num 1) (app_engine\<lparr>throttle := Num 1\<rparr>, app_heap)) = None
   \<and> level (snd (snd (tick (Num 1) (app_engine\<lparr>throttle := Num 1\<rparr>, app_heap))) 0)
       = Num (49803 / 5)
   \<and> level (snd (snd (tick (Num 1) (app_engine\<lparr>throttle := Num 1\<rparr>, app_heap))) 1)
       = Num (498711 / 10)
   \<and> get_thrustLevel (fst (snd (tick (Num 1) (app_engine\<lparr>throttle := Num 1\<rparr>, app_heap))))
       = Num 0
   \<and> jslt (level (snd (snd (tick (Num 1) (app_engine\<lparr>throttle := Num 1\<rparr>, app_heap))) 0))
          (level (app_heap 0))"
  using tick_unlit_drains [where e = "app_engine\<lparr>throttle := Num 1\<rparr>" and h = app_heap
      and f = 0 and ox = 1 and ff = 788 and fo = 2578 and th = 1 and d = 1
      and lf = 10000 and lo = 50000]
  by (simp add: app_heap_fields app_engine_fields)

section \<open>Engines: the read accessors\<close>

lemma inf_thrust_engine_fields:
  "thrust inf_thrust_engine = PosInf" "effectiveExhaustVelocity inf_thrust_engine = PosInf"
  "fuelFlow inf_thrust_engine = Num 788" "oxidizerFlow inf_thrust_engine = Num 2578"
  "fuelTank inf_thrust_engine = Some 0" "oxidizerTank inf_thrust_engine = Some 1"
  "throttle inf_thrust_engine = Num 1" "preburnerCombustion inf_thrust_engine = Num 0"
  "chamberCombustion inf_thrust_engine = Num 0"
  "preburnerIgnition inf_thrust_engine = True" "chamberIgnition inf_thrust_engine = False"
  by (simp_all add: inf_thrust_engine_def new_Engine_def)

lemma tick_inf_thrust_engine:
  "tick (Num (1 / 24)) (inf_thrust_engine, app_heap) =
     (None, inf_thrust_engine\<lparr>preburnerCombustion := Num 1, chamberCombustion := Num 0\<rparr>,
      app_heap(0 := (app_heap 0)\<lparr>level := Num (59803 / 6)\<rparr>,
               1 := (app_heap 1)\<lparr>level := Num (598711 / 12)\<rparr>))"
proof -
  have pre: "preburner (Num (1 / 24)) (inf_thrust_engine, app_heap) =
      (None, inf_thrust_engine\<lparr>preburnerCombustion := Num 1\<rparr>,
       app_heap(0 := (app_heap 0)\<lparr>level := Num (1199803 / 120)\<rparr>,
                1 := (app_heap 1)\<lparr>level := Num (11998711 / 240)\<rparr>))"
    by (simp add: preburner_def inf_thrust_engine_fields app_heap_fields
        preburner_body_Num [where ff = 788 and fo = 2578 and th = 1 and lf = 10000 and lo = 50000])
  have pmp: "pump (Num (1 / 24)) (inf_thrust_engine\<lparr>preburnerCombustion := Num 1\<rparr>,
       app_heap(0 := (app_heap 0)\<lparr>level := Num (1199803 / 120)\<rparr>,
                1 := (app_heap 1)\<lparr>level := Num (11998711 / 240)\<rparr>)) =
      (Inr (Num 1),
       app_heap(0 := (app_heap 0)\<lparr>level := Num (59803 / 6)\<rparr>,
                1 := (app_heap 1)\<lparr>level := Num (598711 / 12)\<rparr>))"
    by (simp add: pump_def inf_thrust_engine_fields
        pump_body_Num [where ff = 788 and fo = 2578 and pc = 1
          and lf = "1199803 / 120" and lo = "11998711 / 240"])
  show ?thesis
    using pre pmp by (simp add: tick_def chamber_def inf_thrust_engine_fields)
qed

text \<open>
  Claim C5, as the code has it. The getter \<open>thrust\<close> returns the nominal thrust times
  the thrust level, on every engine. When the two combustion levels are finite, the
  thrust level is \<open>preburnerCombustion * 0.05 + chamberCombustion * 0.95\<close>, and each of
  the getters \<open>fuelFlow\<close>, \<open>oxidizerFlow\<close>, \<open>propellantFlow\<close> and
  \<open>effectiveExhaustVelocity\<close>, on a finite nominal value \<open>x\<close>, returns the sum
  \<open>x * 0.05 * preburnerCombustion + x * 0.95 * chamberCombustion\<close> of the shares of the
  two stages. A getter is a function from the engine to a number: it returns no engine,
  so it leaves the engine as it is.
\<close>

theorem accessors_by_stage:
  "get_thrust e = jsmul (thrust e) (get_thrustLevel e)
   \<and> (preburnerCombustion e = Num pc \<and> chamberCombustion e = Num cc \<longrightarrow>
        get_thrustLevel e = Num (pc * 0.05 + cc * 0.95)
      \<and> (thrust e = Num T \<longrightarrow> get_thrust e = Num (T * (pc * 0.05 + cc * 0.95)))
      \<and> (fuelFlow e = Num ff \<longrightarrow> get_fuelFlow e = Num (ff * 0.05 * pc + ff * 0.95 * cc))
      \<and> (oxidizerFlow e = Num fo \<longrightarrow>
            get_oxidizerFlow e = Num (fo * 0.05 * pc + fo * 0.95 * cc))
      \<and> (propellantFlow e = Num pf \<longrightarrow>
            get_propellantFlow e = Num (pf * 0.05 * pc + pf * 0.95 * cc))
      \<and> (effectiveExhaustVelocity e = Num ve \<longrightarrow>
            get_effectiveExhaustVelocity e = Num (ve * 0.05 * pc + ve * 0.95 * cc)))"
  by (simp add: get_thrustLevel_def get_thrust_def get_fuelFlow_def get_oxidizerFlow_def
      get_propellantFlow_def get_effectiveExhaustVelocity_def PREBURNER_TAP_OFF_def
      CHAMBER_TAP_OFF_Num)

theorem accessors_by_stage_witness:
  "get_thrustLevel (lit_engine\<lparr>preburnerCombustion := Num 1, chamberCombustion := Num (1 / 2)\<rparr>)
     = Num (21 / 40)
   \<and> get_thrust (lit_engine\<lparr>preburnerCombustion := Num 1, chamberCombustion := Num (1 / 2)\<rparr>)
     = Num 4079250
   \<and> get_fuelFlow (lit_engine\<lparr>preburnerCombustion := Num 1, chamberCombustion := Num (1 / 2)\<rparr>)
     = Num (4137 / 10)
   \<and> get_oxidizerFlow (lit_engine\<lparr>preburnerCombustion := Num 1, chamberCombustion := Num (1 / 2)\<rparr>)
     = Num (27069 / 20)
   \<and> get_propellantFlow
        (lit_engine\<lparr>preburnerCombustion := Num 1, chamberCombustion := Num (1 / 2)\<rparr>)
     = Num (35343 / 20)
   \<and> get_effectiveExhaustVelocity
        (lit_engine\<lparr>preburnerCombustion := Num 1, chamberCombustion := Num (1 / 2)\<rparr>)
     = Num (1295000 / 561 * 0.05 * 1 + 1295000 / 561 * 0.95 * (1 / 2))"
  using accessors_by_stage [where e = "lit_engine\<lparr>preburnerCombustion := Num 1,
        chamberCombustion := Num (1 / 2)\<rparr>"
      and T = 7770000 and ff = 788 and fo = 2578 and pf = 3366 and ve = "1295000 / 561"
      and pc = 1 and cc = "1 / 2"]
  by (simp add: lit_engine_def app_engine_def new_Engine_def)

text \<open>
  With exact products and sums, the sum of the two shares is the nominal value times the
  thrust level. The doubles of the source agree with that only up to rounding.
\<close>

lemma accessors_exact_arithmetic:
  assumes "thrust e = Num T" and "fuelFlow e = Num ff" and "oxidizerFlow e = Num fo"
    and "propellantFlow e = Num pf" and "effectiveExhaustVelocity e = Num ve"
    and "preburnerCombustion e = Num pc" and "chamberCombustion e = Num cc"
  shows "get_thrustLevel e = Num (0.05 * pc + 0.95 * cc)
       \<and> get_thrust e = jsmul (thrust e) (get_thrustLevel e)
       \<and> get_fuelFlow e = jsmul (fuelFlow e) (get_thrustLevel e)
       \<and> get_oxidizerFlow e = jsmul (oxidizerFlow e) (get_thrustLevel e)
       \<and> get_propellantFlow e = jsmul (propellantFlow e) (get_thrustLevel e)
       \<and> get_effectiveExhaustVelocity e = jsmul (effectiveExhaustVelocity e) (get_thrustLevel e)
       \<and> get_thrust e = Num (T * (0.05 * pc + 0.95 * cc))
       \<and> get_fuelFlow e = Num (ff * (0.05 * pc + 0.95 * cc))
       \<and> get_oxidizerFlow e = Num (fo * (0.05 * pc + 0.95 * cc))
       \<and> get_propellantFlow e = Num (pf * (0.05 * pc + 0.95 * cc))
       \<and> get_effectiveExhaustVelocity e = Num (ve * (0.05 * pc + 0.95 * cc))"
  using assms
  by (simp add: get_thrustLevel_def get_thrust_def get_fuelFlow_def get_oxidizerFlow_def
      get_propellantFlow_def get_effectiveExhaustVelocity_def PREBURNER_TAP_OFF_def
      CHAMBER_TAP_OFF_Num algebra_simps)

text \<open>
  Claim C5 as stated fails on an engine built with an infinite thrust. After a tick with
  only the pre-burner lit, the pre-burner level is 1 and the chamber level is 0: the
  getter \<open>effectiveExhaustVelocity\<close> returns NaN, the sum of an infinity and of
  infinity times zero, while the nominal exhaust velocity times the thrust level is
  infinite.
\<close>

theorem accessors_infinite_counterexample:
  "preburnerCombustion (fst (snd (tick (Num (1 / 24)) (inf_thrust_engine, app_heap)))) = Num 1
   \<and> chamberCombustion (fst (snd (tick (Num (1 / 24)) (inf_thrust_engine, app_heap)))) = Num 0
   \<and> get_effectiveExhaustVelocity (fst (snd (tick (Num (1 / 24)) (inf_thrust_engine, app_heap))))
       = NaN
   \<and> jsmul (effectiveExhaustVelocity (fst (snd (tick (Num (1 / 24)) (inf_thrust_engine, app_heap)))))
            (get_thrustLevel (fst (snd (tick (Num (1 / 24)) (inf_thrust_engine, app_heap)))))
       = PosInf"
  by (simp add: tick_inf_thrust_engine inf_thrust_engine_fields get_effectiveExhaustVelocity_def
      get_thrustLevel_def PREBURNER_TAP_OFF_def CHAMBER_TAP_OFF_Num)

section \<open>The clock: start and stop\<close>

lemma start_fails_iff_running: "(fst (start n c) \<noteq> None) = isRunning c"
  by (simp add: start_def isRunning_def)

lemma stop_fails_iff_running: "(fst (stop c) \<noteq> None) = isRunning c"
  by (simp add: stop_def isRunning_def)

lemma app_clock_fields:
  "timer_id app_clock = None" "elapsed app_clock = Num (1 / 24)"
  "temporals app_clock = [engine_temporal 0, engine_temporal 1]"
  by (simp_all add: app_clock_def new_Clock_def register_def)

text \<open>
  Claim C7, on the code. The application's clock is running after \<open>start\<close>. Then
  \<open>stop\<close> throws the error of an illegal state, with the message that the clock is
  not running, and the clock is still running after the call. On the clock that was
  never started \<open>stop\<close> throws nothing. \<open>start\<close> throws on the running clock and
  not on the stopped one.
\<close>

theorem stop_running_clock:
  "isRunning running_clock
   \<and> stop running_clock = (Some (IllegalStateError ''Clock is not running''), running_clock)
   \<and> isRunning (snd (stop running_clock))
   \<and> \<not> isRunning app_clock
   \<and> fst (stop app_clock) = None
   \<and> fst (start 2 running_clock) = Some (IllegalStateError ''Clock is already running'')
   \<and> fst (start 1 app_clock) = None"
  by (simp add: running_clock_def start_def stop_def isRunning_def app_clock_fields)

section \<open>The clock: a firing\<close>

lemma forEach_tick_eq:
  "forEach_tick dt ts (w, console)
     = (foldl (\<lambda>w t. snd (t dt w)) w ts, console @ thrown dt ts w)"
proof (induction ts arbitrary: w console)
  case Nil
  then show ?case by simp
next
  case (Cons t ts)
  then show ?case
    by (cases "t dt w") (auto split: option.splits)
qed

lemma register_all_fields:
  "temporals (register_all ts c) = temporals c @ ts \<and> elapsed (register_all ts c) = elapsed c"
  by (induction ts arbitrary: c) (simp_all add: register_def)

text \<open>
  Claim C9. A firing of a clock built with rate \<open>r\<close>, on which the temporals
  \<open>ts\<close> were registered in this order, ticks every one of them with the elapsed time
  \<open>1 / r\<close>, in the order of registration, each on the world as the one before it left
  it, whether that one threw or not; the console receives the exceptions thrown, in
  that order.
\<close>

theorem firing_dispatches_all:
  "clock_tick (register_all ts (new_Clock r)) (w, console)
     = (foldl (\<lambda>w t. snd (t (jsdiv (Num 1) r) w)) w ts,
        console @ thrown (jsdiv (Num 1) r) ts w)"
  by (simp add: clock_tick_def register_all_fields forEach_tick_eq new_Clock_def
      del: jsdiv.simps)

text \<open>
  A firing of the application's clock on the world whose first engine has no tank: the
  fault of the first engine goes to the console and the second engine is ticked.
\<close>

lemma firing_survives_fault:
  "clock_tick app_clock (faulty_world, []) =
     (faulty_world
        \<lparr>engines := (engines faulty_world)
            (1 := lit_engine\<lparr>preburnerCombustion := Num 1, chamberCombustion := Num 1\<rparr>),
         tanks := app_heap(0 := (app_heap 0)\<lparr>level := Num (59803 / 6)\<rparr>,
                           1 := (app_heap 1)\<lparr>level := Num (598711 / 12)\<rparr>)\<rparr>,
      [NoFuelTankConnectedError ''Fuel tank is not connected''])"
proof -
  have first: "engine_temporal 0 (Num (1 / 24)) faulty_world
      = (Some (NoFuelTankConnectedError ''Fuel tank is not connected''), faulty_world)"
    by (simp add: engine_temporal_def faulty_world_def app_world_def tick_def preburner_def
        new_Engine_def)
  have second: "engine_temporal 1 (Num (1 / 24)) faulty_world
      = (None, faulty_world
        \<lparr>engines := (engines faulty_world)
            (1 := lit_engine\<lparr>preburnerCombustion := Num 1, chamberCombustion := Num 1\<rparr>),
         tanks := app_heap(0 := (app_heap 0)\<lparr>level := Num (59803 / 6)\<rparr>,
                           1 := (app_heap 1)\<lparr>level := Num (598711 / 12)\<rparr>)\<rparr>)"
    using tick_lit_engine
    by (simp add: engine_temporal_def faulty_world_def app_world_def)
  show ?thesis
    using first second by (simp add: clock_tick_def app_clock_fields)
qed

end
